theory Spec2Isabelle
  imports Main
begin

section \<open>Values and host classes named by hooks/Options.py\<close>

text \<open>
  The module imports its base classes and the \<open>Visibility\<close> flag from the host's
  \<open>Options\<close> module. The host is not part of the repository, so the base classes appear
  here only as the names the import line lists, and whatever a class inherits from them is
  a parameter \<open>host\<close> of the attribute lookup below.
\<close>

text \<open>Modelled from the spec: the host's \<open>Visibility\<close> flag is missing from the sources.
  The module names only its member \<open>none\<close> (the spec's hidden); \<open>Visibility_all\<close> stands
  for the spec's visible.\<close>

datatype Visibility = Visibility_none | Visibility_all

datatype host_class =
    Option_cls | FreeText | NumericOption | Toggle | DefaultOnToggle
  | Choice | TextChoice | Range_cls | NamedRange

datatype pyval = IntV int | StrV string | BoolV bool | VisV Visibility

datatype error = KeyError string

section \<open>Class statements\<close>

text \<open>
  A class statement of the module: its name, the base class of its header, the
  assignments \<open>name = value\<close> of its body in source order, and the bare annotations
  \<open>name: "text"\<close> of its body. An annotation without a value binds no attribute; Python
  records it under \<open>__annotations__\<close> only. Docstrings are left out.
\<close>

record class_stmt =
  cls_name :: string
  cls_base :: host_class
  cls_assigns :: "(string \<times> pyval) list"
  cls_annotations :: "(string \<times> string) list"

definition TotalCharactersToWinWith :: class_stmt where
  "TotalCharactersToWinWith =
    \<lparr>cls_name = ''TotalCharactersToWinWith'', cls_base = Range_cls,
     cls_assigns =
       [(''display_name'', StrV ''Number of characters to beat the game with before victory''),
        (''range_start'', IntV 10),
        (''range_end'', IntV 50),
        (''default'', IntV 50)],
     cls_annotations = []\<rparr>"

definition SoloMode :: class_stmt where
  "SoloMode =
    \<lparr>cls_name = ''SoloMode'', cls_base = Toggle, cls_assigns = [],
     cls_annotations = [(''display_name'', ''Solo Mode'')]\<rparr>"

definition ISpyLogic :: class_stmt where
  "ISpyLogic =
    \<lparr>cls_name = ''ISpyLogic'', cls_base = DefaultOnToggle, cls_assigns = [],
     cls_annotations = [(''display_name'', ''I Spy Logic'')]\<rparr>"

definition Shopsanity :: class_stmt where
  "Shopsanity =
    \<lparr>cls_name = ''Shopsanity'', cls_base = Toggle, cls_assigns = [],
     cls_annotations = [(''display_name'', ''Shopsanity'')]\<rparr>"

definition BUXShopHints :: class_stmt where
  "BUXShopHints =
    \<lparr>cls_name = ''BUXShopHints'', cls_base = DefaultOnToggle, cls_assigns = [],
     cls_annotations = [(''display_name'', ''BUX Shop Hints'')]\<rparr>"

definition Levelsanity :: class_stmt where
  "Levelsanity =
    \<lparr>cls_name = ''Levelsanity'', cls_base = DefaultOnToggle, cls_assigns = [],
     cls_annotations = [(''display_name'', ''Levelsanity'')]\<rparr>"

definition Fishsanity :: class_stmt where
  "Fishsanity =
    \<lparr>cls_name = ''Fishsanity'', cls_base = DefaultOnToggle, cls_assigns = [],
     cls_annotations = [(''display_name'', ''Fishsanity'')]\<rparr>"

definition Chatsanity :: class_stmt where
  "Chatsanity =
    \<lparr>cls_name = ''Chatsanity'', cls_base = Toggle, cls_assigns = [],
     cls_annotations = [(''display_name'', ''Chatsanity'')]\<rparr>"

definition CAP :: class_stmt where
  "CAP =
    \<lparr>cls_name = ''CAP'', cls_base = Choice,
     cls_assigns = [(''option_i_agree'', IntV 0), (''option_i_disagree'', IntV 1)],
     cls_annotations = [(''display_name'', ''CAP'')]\<rparr>"

definition Cutscenesanity :: class_stmt where
  "Cutscenesanity =
    \<lparr>cls_name = ''Cutscenesanity'', cls_base = DefaultOnToggle, cls_assigns = [],
     cls_annotations = [(''display_name'', ''Cutscenesanity'')]\<rparr>"

definition ThePit :: class_stmt where
  "ThePit =
    \<lparr>cls_name = ''ThePit'', cls_base = Toggle, cls_assigns = [],
     cls_annotations = [(''display_name'', ''The Pit'')]\<rparr>"

definition DisablePostGoalContent :: class_stmt where
  "DisablePostGoalContent =
    \<lparr>cls_name = ''DisablePostGoalContent'', cls_base = DefaultOnToggle, cls_assigns = [],
     cls_annotations = [(''display_name'', ''Disable Post-Goal Content'')]\<rparr>"

definition SoulType :: class_stmt where
  "SoulType =
    \<lparr>cls_name = ''SoulType'', cls_base = Choice,
     cls_assigns = [(''option_pure'', IntV 0), (''option_dark'', IntV 1)],
     cls_annotations = [(''display_name'', ''Soul Type'')]\<rparr>"

text \<open>The thirteen class statements of the module, in source order.\<close>

definition module_classes :: "class_stmt list" where
  "module_classes =
    [TotalCharactersToWinWith, SoloMode, ISpyLogic, Shopsanity, BUXShopHints, Levelsanity,
     Fishsanity, Chatsanity, CAP, Cutscenesanity, ThePit, DisablePostGoalContent, SoulType]"

subsection \<open>Attribute lookup on a class\<close>

text \<open>
  The body of a class statement runs top to bottom, so a later assignment to a name
  replaces an earlier one: the class's own dictionary is the last binding of each name.
\<close>

definition class_dict :: "class_stmt \<Rightarrow> string \<Rightarrow> pyval option" where
  "class_dict c = map_of (rev (cls_assigns c))"

text \<open>
  \<open>getattr(c, a)\<close> on a class of the module: its own dictionary first, then what its
  base class provides. \<open>None\<close> is Python's \<open>AttributeError\<close>.
\<close>

definition class_getattr ::
  "(host_class \<Rightarrow> string \<Rightarrow> pyval option) \<Rightarrow> class_stmt \<Rightarrow> string \<Rightarrow> pyval option" where
  "class_getattr host c a =
    (case class_dict c a of Some v \<Rightarrow> Some v | None \<Rightarrow> host (cls_base c) a)"

text \<open>Modelled from the spec: the host's reading of a \<open>Choice\<close> is missing from the
  sources. The members of the enumeration are the integer assignments named
  \<open>option_<label>\<close>, in source order, each label with its code.\<close>

fun choice_members :: "(string \<times> pyval) list \<Rightarrow> (string \<times> int) list" where
  "choice_members [] = []"
| "choice_members ((n, IntV v) # xs) =
    (if take 7 n = ''option_'' then (drop 7 n, v) # choice_members xs else choice_members xs)"
| "choice_members (_ # xs) = choice_members xs"

text \<open>The label a code stands for: the first member that carries the code.\<close>

fun label_of :: "(string \<times> int) list \<Rightarrow> int \<Rightarrow> string option" where
  "label_of [] v = None"
| "label_of ((l, w) # ms) v = (if w = v then Some l else label_of ms v)"

definition default_label ::
  "(host_class \<Rightarrow> string \<Rightarrow> pyval option) \<Rightarrow> class_stmt \<Rightarrow> string option" where
  "default_label host c =
    (case class_getattr host c ''default'' of
       Some (IntV v) \<Rightarrow> label_of (choice_members (cls_assigns c)) v
     | _ \<Rightarrow> None)"

text \<open>Modelled from the spec: the defaults of the host's base classes are missing from
  the sources. Section 3 of the spec gives a \<open>Toggle\<close> the default false and a
  \<open>DefaultOnToggle\<close> the default true; the table of section 4.1 gives a \<open>Choice\<close> that
  sets no default the code 0.\<close>

definition host_conforms :: "(host_class \<Rightarrow> string \<Rightarrow> pyval option) \<Rightarrow> bool" where
  "host_conforms host \<longleftrightarrow>
     host Toggle ''default'' = Some (BoolV False) \<and>
     host DefaultOnToggle ''default'' = Some (BoolV True) \<and>
     host Choice ''default'' = Some (IntV 0)"

text \<open>Modelled from the spec: one host that conforms, binding nothing but the three
  defaults above.\<close>

definition spec_host :: "host_class \<Rightarrow> string \<Rightarrow> pyval option" where
  "spec_host b a =
    (if a = ''default'' then
       (case b of
          Toggle \<Rightarrow> Some (BoolV False)
        | DefaultOnToggle \<Rightarrow> Some (BoolV True)
        | Choice \<Rightarrow> Some (IntV 0)
        | _ \<Rightarrow> None)
     else None)"

section \<open>Statements that may raise, over an explicit store\<close>

text \<open>
  A statement takes the store and returns either the exception it raised or its value,
  together with the store as it stands at that point: what a statement wrote before a
  later one raises stays written.
\<close>

type_synonym ('s, 'a) stmt = "'s \<Rightarrow> (error + 'a) \<times> 's"

definition return :: "'a \<Rightarrow> ('s, 'a) stmt" where
  "return x s = (Inr x, s)"

definition bind :: "('s, 'a) stmt \<Rightarrow> ('a \<Rightarrow> ('s, 'b) stmt) \<Rightarrow> ('s, 'b) stmt" where
  "bind m f s = (case m s of (Inl e, s') \<Rightarrow> (Inl e, s') | (Inr x, s') \<Rightarrow> f x s')"

text \<open>A block runs its statements in order and stops at the first one that raises.\<close>

fun block :: "('s, unit) stmt list \<Rightarrow> ('s, unit) stmt" where
  "block [] s = (Inr (), s)"
| "block (st # sts) s =
    (case st s of (Inl e, s') \<Rightarrow> (Inl e, s') | (Inr _, s') \<Rightarrow> block sts s')"

subsection \<open>Dictionaries\<close>

text \<open>
  A dictionary with string keys is an object of the store, named by a reference: the
  caller and the hook share it. \<open>d[k] = v\<close> cannot fail on a string key; \<open>d[k]\<close>
  raises \<open>KeyError\<close> on a key that is not bound.
\<close>

type_synonym ref = nat

type_synonym 'v dict = "string \<Rightarrow> 'v option"

type_synonym 'v dict_store = "ref \<Rightarrow> 'v dict"

definition dict_setitem :: "ref \<Rightarrow> string \<Rightarrow> 'v \<Rightarrow> ('v dict_store, unit) stmt" where
  "dict_setitem d k v s = (Inr (), s(d := (s d)(k \<mapsto> v)))"

definition dict_getitem :: "'v dict \<Rightarrow> string \<Rightarrow> ('s, 'v) stmt" where
  "dict_getitem d k s = (case d k of None \<Rightarrow> (Inl (KeyError k), s) | Some v \<Rightarrow> (Inr v, s))"

section \<open>The hook before\_options\_defined\<close>

text \<open>
  The hook receives the reference of the host's dictionary from option keys to option
  classes, stores twelve classes in it and returns the reference it was given. It does
  not touch the classes themselves, so the dictionary holds them by value.
\<close>

definition before_options_defined :: "ref \<Rightarrow> (class_stmt dict_store, ref) stmt" where
  "before_options_defined options =
    bind (block
      [dict_setitem options ''solo_mode'' SoloMode,
       dict_setitem options ''i_spy_logic'' ISpyLogic,
       dict_setitem options ''shopsanity'' Shopsanity,
       dict_setitem options ''bux_shop_hints'' BUXShopHints,
       dict_setitem options ''levelsanity'' Levelsanity,
       dict_setitem options ''fishsanity'' Fishsanity,
       dict_setitem options ''chatsanity'' Chatsanity,
       dict_setitem options ''cap'' CAP,
       dict_setitem options ''cutscenesanity'' Cutscenesanity,
       dict_setitem options ''the_pit'' ThePit,
       dict_setitem options ''disable_postgoal_content'' DisablePostGoalContent,
       dict_setitem options ''soul_type'' SoulType])
      (\<lambda>_. return options)"

section \<open>The hook after\_options\_defined\<close>

text \<open>
  The hook assigns \<open>options.type_hints[key].visibility\<close>: it mutates the class object
  that the key is bound to. Class objects are shared (two keys may be bound to one class,
  and a class is seen through every class that inherits from it), so they live in a store
  of their own. A class object has its own dictionary of attributes and the rest of its
  method resolution order: the classes it inherits from, nearest first, itself left out.
\<close>

record class_obj =
  obj_dict :: "string \<Rightarrow> pyval option"
  obj_mro_rest :: "ref list"

type_synonym class_store = "ref \<Rightarrow> class_obj"

text \<open>The argument of the hook: the host's option set, read through its \<open>type_hints\<close>
  dictionary from option keys to class objects. The hook never writes to that dictionary.\<close>

record option_set =
  type_hints :: "ref dict"

text \<open>Attribute lookup on a class object: the first class of the method resolution
  order whose own dictionary binds the name.\<close>

fun mro_lookup :: "class_store \<Rightarrow> ref list \<Rightarrow> string \<Rightarrow> pyval option" where
  "mro_lookup s [] a = None"
| "mro_lookup s (c # cs) a =
    (case obj_dict (s c) a of Some v \<Rightarrow> Some v | None \<Rightarrow> mro_lookup s cs a)"

text \<open>The method resolution order of a class object: the class itself comes first.\<close>

definition mro :: "class_store \<Rightarrow> ref \<Rightarrow> ref list" where
  "mro s c = c # obj_mro_rest (s c)"

definition type_getattr :: "class_store \<Rightarrow> ref \<Rightarrow> string \<Rightarrow> pyval option" where
  "type_getattr s c a = mro_lookup s (mro s c) a"

text \<open>Attribute assignment on a class object writes its own dictionary.\<close>

definition type_setattr :: "ref \<Rightarrow> string \<Rightarrow> pyval \<Rightarrow> (class_store, unit) stmt" where
  "type_setattr c a v s = (Inr (), s(c := (s c)\<lparr>obj_dict := (obj_dict (s c))(a \<mapsto> v)\<rparr>))"

text \<open>The statement \<open>options.type_hints[key].visibility = v\<close>: the subscript is
  evaluated first and raises on a missing key, then the attribute is assigned.\<close>

definition set_visibility :: "option_set \<Rightarrow> string \<Rightarrow> Visibility \<Rightarrow> (class_store, unit) stmt" where
  "set_visibility options key v =
    bind (dict_getitem (type_hints options) key) (\<lambda>c. type_setattr c ''visibility'' (VisV v))"

definition after_options_defined :: "option_set \<Rightarrow> (class_store, unit) stmt" where
  "after_options_defined options =
    block
      [set_visibility options ''co_op'' Visibility_none,
       set_visibility options ''bux_shop'' Visibility_none,
       set_visibility options ''shopsanity_currency'' Visibility_none,
       set_visibility options ''pure_soul'' Visibility_none,
       set_visibility options ''dark_soul'' Visibility_none,
       set_visibility options ''pre_prologue'' Visibility_none,
       set_visibility options ''prologue'' Visibility_none,
       set_visibility options ''chapter1'' Visibility_none,
       set_visibility options ''chapter2'' Visibility_none,
       set_visibility options ''chapter3'' Visibility_none,
       set_visibility options ''chapter4'' Visibility_none]"

text \<open>What a key of the option set shows for an attribute: \<open>None\<close> when the key is not
  bound or its class has no such attribute.\<close>

definition option_attr :: "option_set \<Rightarrow> class_store \<Rightarrow> string \<Rightarrow> string \<Rightarrow> pyval option" where
  "option_attr options s key a =
    (case type_hints options key of None \<Rightarrow> None | Some c \<Rightarrow> type_getattr s c a)"

section \<open>The group hooks\<close>

text \<open>Both hooks return the structure they were given and touch nothing.\<close>

definition before_option_groups_created :: "'g \<Rightarrow> ('s, 'g) stmt" where
  "before_option_groups_created groups = return groups"

definition after_option_groups_created :: "'g \<Rightarrow> ('s, 'g) stmt" where
  "after_option_groups_created groups = return groups"

section \<open>The tables the properties are stated against\<close>

text \<open>The keys the registration hook writes, with the class it binds each to, in
  source order.\<close>

definition registrations :: "(string \<times> class_stmt) list" where
  "registrations =
    [(''solo_mode'', SoloMode), (''i_spy_logic'', ISpyLogic), (''shopsanity'', Shopsanity),
     (''bux_shop_hints'', BUXShopHints), (''levelsanity'', Levelsanity),
     (''fishsanity'', Fishsanity), (''chatsanity'', Chatsanity), (''cap'', CAP),
     (''cutscenesanity'', Cutscenesanity), (''the_pit'', ThePit),
     (''disable_postgoal_content'', DisablePostGoalContent), (''soul_type'', SoulType)]"

text \<open>The keys whose visibility the second hook assigns, in source order.\<close>

definition target_keys :: "string list" where
  "target_keys =
    [''co_op'', ''bux_shop'', ''shopsanity_currency'', ''pure_soul'', ''dark_soul'',
     ''pre_prologue'', ''prologue'', ''chapter1'', ''chapter2'', ''chapter3'', ''chapter4'']"

text \<open>The assignment \<open>options.type_hints[key].visibility = v\<close> for each key of a list,
  in order, as one block.\<close>

definition hide_keys :: "option_set \<Rightarrow> Visibility \<Rightarrow> string list \<Rightarrow> (class_store, unit) stmt" where
  "hide_keys options v ks = block (map (\<lambda>k. set_visibility options k v) ks)"

text \<open>The class objects the target keys are bound to (a key that is not bound has none).\<close>

definition target_classes :: "option_set \<Rightarrow> ref list" where
  "target_classes options = List.map_filter (type_hints options) target_keys"

text \<open>
  What the table of section 4.1 of the spec records of a definition: its kind, its
  default, its inclusive bounds (a \<open>Range\<close>) and its enumeration (a \<open>Choice\<close>).
\<close>

record summary =
  kind :: host_class
  default_value :: "pyval option"
  bounds :: "(pyval option \<times> pyval option) option"
  choices :: "(string \<times> int) list"

definition describe :: "(host_class \<Rightarrow> string \<Rightarrow> pyval option) \<Rightarrow> class_stmt \<Rightarrow> summary" where
  "describe host c =
    \<lparr>kind = cls_base c,
     default_value = class_getattr host c ''default'',
     bounds =
       (if cls_base c = Range_cls
        then Some (class_getattr host c ''range_start'', class_getattr host c ''range_end'')
        else None),
     choices = choice_members (cls_assigns c)\<rparr>"

text \<open>The rows of the table of section 4.1, written from the spec's words: a toggle has
  off for false and on for true, neither bounds nor members; the range has its default and
  its bounds; a choice has the code of its default and its members.\<close>

definition toggle_row :: "host_class \<Rightarrow> bool \<Rightarrow> summary" where
  "toggle_row b d = \<lparr>kind = b, default_value = Some (BoolV d), bounds = None, choices = []\<rparr>"

definition choice_row :: "int \<Rightarrow> (string \<times> int) list \<Rightarrow> summary" where
  "choice_row d ms = \<lparr>kind = Choice, default_value = Some (IntV d), bounds = None, choices = ms\<rparr>"

definition range_row :: "int \<Rightarrow> int \<Rightarrow> int \<Rightarrow> summary" where
  "range_row d lo hi =
    \<lparr>kind = Range_cls, default_value = Some (IntV d),
     bounds = Some (Some (IntV lo), Some (IntV hi)), choices = []\<rparr>"

definition spec_catalog :: "(string \<times> summary) list" where
  "spec_catalog =
    [(''total_characters_to_win_with'', range_row 50 10 50),
     (''solo_mode'', toggle_row Toggle False),
     (''i_spy_logic'', toggle_row DefaultOnToggle True),
     (''shopsanity'', toggle_row Toggle False),
     (''bux_shop_hints'', toggle_row DefaultOnToggle True),
     (''levelsanity'', toggle_row DefaultOnToggle True),
     (''fishsanity'', toggle_row DefaultOnToggle True),
     (''chatsanity'', toggle_row Toggle False),
     (''cap'', choice_row 0 [(''i_agree'', 0), (''i_disagree'', 1)]),
     (''cutscenesanity'', toggle_row DefaultOnToggle True),
     (''the_pit'', toggle_row Toggle False),
     (''disable_postgoal_content'', toggle_row DefaultOnToggle True),
     (''soul_type'', choice_row 0 [(''pure'', 0), (''dark'', 1)])]"

section \<open>Concrete inputs\<close>

text \<open>A dictionary store whose dictionaries are all empty, and one where dictionary 0
  already binds two keys the hook writes and one it does not.\<close>

definition empty_store :: "class_stmt dict_store" where
  "empty_store r = Map.empty"

definition bound_store :: "class_stmt dict_store" where
  "bound_store =
    empty_store(0 := [''cap'' \<mapsto> SoloMode, ''solo_mode'' \<mapsto> TotalCharactersToWinWith,
                      ''goal'' \<mapsto> SoulType])"

text \<open>A class store in which every class object is visible and inherits from nothing.\<close>

definition visible_store :: class_store where
  "visible_store c = \<lparr>obj_dict = [''visibility'' \<mapsto> VisV Visibility_all], obj_mro_rest = []\<rparr>"

text \<open>The scenario of section 8 of the spec: the eleven target keys and an unrelated
  key, each bound to a class object of its own.\<close>

definition full_options :: option_set where
  "full_options =
    \<lparr>type_hints = map_of
      [(''co_op'', 0), (''bux_shop'', 1), (''shopsanity_currency'', 2), (''pure_soul'', 3),
       (''dark_soul'', 4), (''pre_prologue'', 5), (''prologue'', 6), (''chapter1'', 7),
       (''chapter2'', 8), (''chapter3'', 9), (''chapter4'', 10), (''unrelated_key'', 11)]\<rparr>"

text \<open>The same option set, but the unrelated key is bound to the class object of
  \<open>co_op\<close>: one class under two keys.\<close>

definition shared_options :: option_set where
  "shared_options =
    \<lparr>type_hints = map_of
      [(''co_op'', 0), (''bux_shop'', 1), (''shopsanity_currency'', 2), (''pure_soul'', 3),
       (''dark_soul'', 4), (''pre_prologue'', 5), (''prologue'', 6), (''chapter1'', 7),
       (''chapter2'', 8), (''chapter3'', 9), (''chapter4'', 10), (''unrelated_key'', 0)]\<rparr>"

text \<open>An option set without the fourth target key, \<open>pure_soul\<close>.\<close>

definition partial_options :: option_set where
  "partial_options =
    \<lparr>type_hints = map_of
      [(''co_op'', 0), (''bux_shop'', 1), (''shopsanity_currency'', 2),
       (''dark_soul'', 4), (''pre_prologue'', 5), (''prologue'', 6), (''chapter1'', 7),
       (''chapter2'', 8), (''chapter3'', 9), (''chapter4'', 10), (''unrelated_key'', 11)]\<rparr>"

section \<open>Properties of the class statements\<close>

lemmas class_defs =
  TotalCharactersToWinWith_def SoloMode_def ISpyLogic_def Shopsanity_def BUXShopHints_def
  Levelsanity_def Fishsanity_def Chatsanity_def CAP_def Cutscenesanity_def ThePit_def
  DisablePostGoalContent_def SoulType_def

lemma spec_host_conforms: "host_conforms spec_host"
  by (simp add: host_conforms_def spec_host_def)

text \<open>
  C7. \<open>TotalCharactersToWinWith\<close> is declared on the base \<open>Range\<close> with the inclusive
  bounds 10 and 50 and the default 50, which lies within the bounds, whatever the host's
  base class provides. The class body holds these data and a display name, nothing else:
  the module declares the bounds and has no code that enforces them.
\<close>

theorem total_characters_declared_bounds:
  "cls_base TotalCharactersToWinWith = Range_cls \<and>
   class_getattr host TotalCharactersToWinWith ''range_start'' = Some (IntV 10) \<and>
   class_getattr host TotalCharactersToWinWith ''range_end'' = Some (IntV 50) \<and>
   class_getattr host TotalCharactersToWinWith ''default'' = Some (IntV 50) \<and>
   (10::int) \<le> 50 \<and> (50::int) \<le> 50 \<and>
   map fst (cls_assigns TotalCharactersToWinWith) =
     [''display_name'', ''range_start'', ''range_end'', ''default'']"
  by (simp add: TotalCharactersToWinWith_def class_getattr_def class_dict_def)

text \<open>
  C8. \<open>CAP\<close> is declared on the base \<open>Choice\<close> with exactly the members
  \<open>i_agree = 0\<close> and \<open>i_disagree = 1\<close>. It assigns no default of its own, so on a
  host whose \<open>Choice\<close> defaults to code 0 its default is code 0, the member \<open>i_agree\<close>.
\<close>

theorem cap_choice_default:
  assumes "host_conforms host"
  shows "cls_base CAP = Choice \<and>
         choice_members (cls_assigns CAP) = [(''i_agree'', 0), (''i_disagree'', 1)] \<and>
         class_dict CAP ''default'' = None \<and>
         class_getattr host CAP ''default'' = Some (IntV 0) \<and>
         default_label host CAP = Some ''i_agree''"
  using assms
  by (simp add: host_conforms_def CAP_def class_getattr_def class_dict_def default_label_def)

theorem cap_choice_default_witness:
  "host_conforms spec_host \<and>
   class_getattr spec_host CAP ''default'' = Some (IntV 0) \<and>
   default_label spec_host CAP = Some ''i_agree''"
  using cap_choice_default [OF spec_host_conforms] spec_host_conforms by simp

text \<open>
  C10. Of the thirteen classes only \<open>TotalCharactersToWinWith\<close> assigns
  \<open>display_name\<close>. Each of the other twelve has the name as a bare annotation only:
  its own dictionary does not bind \<open>display_name\<close>, and looking the attribute up gives
  whatever the host's base class provides.
\<close>

theorem only_total_characters_assigns_display_name:
  "map (\<lambda>c. class_dict c ''display_name'') module_classes =
     Some (StrV ''Number of characters to beat the game with before victory'')
       # replicate 12 None \<and>
   map (\<lambda>c. map_of (cls_annotations c) ''display_name'') module_classes =
     None # map Some
       [''Solo Mode'', ''I Spy Logic'', ''Shopsanity'', ''BUX Shop Hints'', ''Levelsanity'',
        ''Fishsanity'', ''Chatsanity'', ''CAP'', ''Cutscenesanity'', ''The Pit'',
        ''Disable Post-Goal Content'', ''Soul Type''] \<and>
   list_all (\<lambda>c. class_getattr host c ''display_name'' = host (cls_base c) ''display_name'')
     (tl module_classes)"
  by (simp add: module_classes_def class_defs class_dict_def class_getattr_def
      numeral_eq_Suc)

section \<open>Properties of before\_options\_defined\<close>

lemma map_add_upd_front: "m(k \<mapsto> v) ++ map_of kvs = m ++ map_of (kvs @ [(k, v)])"
  by (rule ext) (simp add: map_add_def split: option.splits)

lemma map_add_twice: "(m ++ g) ++ g = m ++ g"
  by (rule ext) (simp add: map_add_def split: option.splits)

lemma block_setitems:
  "block (map (\<lambda>kv. dict_setitem d (fst kv) (snd kv)) kvs) s =
     (Inr (), s(d := s d ++ map_of (rev kvs)))"
proof (induction kvs arbitrary: s)
  case Nil
  show ?case by simp
next
  case (Cons kv kvs)
  let ?s1 = "s(d := (s d)(fst kv \<mapsto> snd kv))"
  have step: "dict_setitem d (fst kv) (snd kv) s = (Inr (), ?s1)"
    by (simp add: dict_setitem_def)
  have "block (map (\<lambda>kv. dict_setitem d (fst kv) (snd kv)) (kv # kvs)) s =
        block (map (\<lambda>kv. dict_setitem d (fst kv) (snd kv)) kvs) ?s1"
    using step by simp
  also have "\<dots> = (Inr (), ?s1(d := ?s1 d ++ map_of (rev kvs)))"
    by (rule Cons.IH)
  also have "?s1(d := ?s1 d ++ map_of (rev kvs)) = s(d := s d ++ map_of (rev (kv # kvs)))"
    using map_add_upd_front [of "s d" "fst kv" "snd kv" "rev kvs"] by simp
  finally show ?case .
qed

lemma before_options_defined_block:
  "before_options_defined options =
     bind (block (map (\<lambda>kv. dict_setitem options (fst kv) (snd kv)) registrations))
       (\<lambda>_. return options)"
  by (simp add: before_options_defined_def registrations_def)

lemma before_options_defined_eq:
  "before_options_defined options s =
     (Inr options, s(options := s options ++ map_of (rev registrations)))"
  by (simp add: before_options_defined_block block_setitems bind_def return_def)

lemma before_options_defined_lookup:
  "snd (before_options_defined options s) options k =
     (case map_of (rev registrations) k of None \<Rightarrow> s options k | Some c \<Rightarrow> Some c)"
  by (simp add: before_options_defined_eq map_add_def)

text \<open>
  C1, amended. On a host that conforms to the spec's base classes, for every store and
  every dictionary: after \<open>before_options_defined\<close>, each of the twelve keys
  \<open>solo_mode\<close> to \<open>soul_type\<close> is bound to a definition whose kind, default and
  bounds or members are those of its row in the table of section 4.1. The hook does not
  write \<open>total_characters_to_win_with\<close>: that key is bound after the call to what it was
  bound to before (to nothing in a dictionary that did not have it). The class
  \<open>TotalCharactersToWinWith\<close> that the module declares does match the first row.
\<close>

theorem registered_definitions_match_catalog:
  assumes "host_conforms host"
  shows "fst (before_options_defined options s) = Inr options \<and>
         (\<forall>(k, d) \<in> set (tl spec_catalog).
            map_option (describe host) (snd (before_options_defined options s) options k)
              = Some d) \<and>
         snd (before_options_defined options s) options ''total_characters_to_win_with''
           = s options ''total_characters_to_win_with'' \<and>
         hd spec_catalog = (''total_characters_to_win_with'', describe host TotalCharactersToWinWith)"
proof -
  have toggle: "host Toggle ''default'' = Some (BoolV False)"
    and on: "host DefaultOnToggle ''default'' = Some (BoolV True)"
    and choice: "host Choice ''default'' = Some (IntV 0)"
    using assms by (simp_all add: host_conforms_def)
  have ret: "fst (before_options_defined options s) = Inr options"
    by (simp add: before_options_defined_eq)
  have rows: "\<forall>(k, d) \<in> set (tl spec_catalog).
      map_option (describe host) (snd (before_options_defined options s) options k) = Some d"
    by (simp add: before_options_defined_lookup spec_catalog_def registrations_def
        describe_def class_defs class_getattr_def class_dict_def
        toggle_row_def choice_row_def toggle on choice)
  have frame: "snd (before_options_defined options s) options ''total_characters_to_win_with''
      = s options ''total_characters_to_win_with''"
    by (simp add: before_options_defined_lookup registrations_def)
  have first: "hd spec_catalog =
      (''total_characters_to_win_with'', describe host TotalCharactersToWinWith)"
    by (simp add: spec_catalog_def range_row_def describe_def TotalCharactersToWinWith_def
        class_getattr_def class_dict_def)
  from ret rows frame first show ?thesis by blast
qed

theorem registered_definitions_match_catalog_witness:
  "host_conforms spec_host \<and>
   map_option (describe spec_host) (snd (before_options_defined 0 bound_store) 0 ''cap'')
     = Some (choice_row 0 [(''i_agree'', 0), (''i_disagree'', 1)]) \<and>
   map_option (describe spec_host) (snd (before_options_defined 0 bound_store) 0 ''solo_mode'')
     = Some (toggle_row Toggle False) \<and>
   map_option (describe spec_host) (snd (before_options_defined 0 bound_store) 0 ''i_spy_logic'')
     = Some (toggle_row DefaultOnToggle True) \<and>
   map_option (describe spec_host) (snd (before_options_defined 0 bound_store) 0 ''soul_type'')
     = Some (choice_row 0 [(''pure'', 0), (''dark'', 1)])"
  using registered_definitions_match_catalog [OF spec_host_conforms, of 0 bound_store]
    spec_host_conforms
  by (simp add: spec_catalog_def)

theorem total_characters_not_registered_counterexample:
  "map_of spec_catalog ''total_characters_to_win_with'' = Some (range_row 50 10 50) \<and>
   snd (before_options_defined 0 empty_store) 0 ''total_characters_to_win_with'' = None"
  by (simp add: before_options_defined_lookup registrations_def spec_catalog_def
      empty_store_def)

text \<open>
  C4. \<open>before_options_defined\<close> has no failure path: for every store and every
  dictionary it returns normally, and each key it writes is bound afterwards to the
  module's class, whatever the dictionary bound the key to before.
\<close>

theorem before_options_defined_total:
  "fst (before_options_defined options s) = Inr options \<and>
   (\<forall>(k, c) \<in> set registrations.
      snd (before_options_defined options s) options k = Some c)"
  by (simp add: before_options_defined_eq registrations_def)

theorem before_options_defined_total_witness:
  "bound_store 0 ''cap'' = Some SoloMode \<and>
   bound_store 0 ''solo_mode'' = Some TotalCharactersToWinWith \<and>
   fst (before_options_defined 0 bound_store) = Inr 0 \<and>
   snd (before_options_defined 0 bound_store) 0 ''cap'' = Some CAP \<and>
   snd (before_options_defined 0 bound_store) 0 ''solo_mode'' = Some SoloMode"
  using before_options_defined_total [of 0 bound_store]
  by (simp add: registrations_def bound_store_def)

text \<open>
  C5. Registering twice is registering once: running the hook again on the store the
  first run left returns the same reference and leaves the store as it was.
\<close>

theorem before_options_defined_idempotent:
  "before_options_defined options (snd (before_options_defined options s)) =
     before_options_defined options s"
  by (simp add: before_options_defined_eq map_add_twice)

text \<open>
  C9. \<open>before_options_defined\<close> returns the reference of the dictionary it was given;
  in that dictionary every key other than the twelve it writes is bound as before, and
  every other dictionary of the store is left as it was.
\<close>

theorem before_options_defined_frame:
  "fst (before_options_defined options s) = Inr options \<and>
   (\<forall>k. k \<notin> set (map fst registrations) \<longrightarrow>
      snd (before_options_defined options s) options k = s options k) \<and>
   (\<forall>r. r \<noteq> options \<longrightarrow> snd (before_options_defined options s) r = s r)"
proof -
  have "snd (before_options_defined options s) options k = s options k"
    if "k \<notin> set (map fst registrations)" for k
  proof -
    from that have "k \<notin> dom (map_of (rev registrations))"
      by (simp add: dom_map_of_conv_image_fst)
    then show ?thesis
      by (simp add: before_options_defined_eq map_add_dom_app_simps)
  qed
  then show ?thesis by (simp add: before_options_defined_eq)
qed

theorem before_options_defined_frame_witness:
  "fst (before_options_defined 0 bound_store) = Inr 0 \<and>
   ''goal'' \<notin> set (map fst registrations) \<and>
   snd (before_options_defined 0 bound_store) 0 ''goal'' = Some SoulType \<and>
   snd (before_options_defined 0 bound_store) 1 ''cap'' = None"
  using before_options_defined_frame [of 0 bound_store]
  by (simp add: registrations_def bound_store_def empty_store_def)

section \<open>Properties of the group hooks\<close>

text \<open>
  C6. \<open>before_option_groups_created\<close> and \<open>after_option_groups_created\<close> return their
  argument and leave the store as it is, for every argument and every store.
\<close>

theorem group_hooks_identity:
  "before_option_groups_created groups s = (Inr groups, s) \<and>
   after_option_groups_created groups s = (Inr groups, s)"
  by (simp add: before_option_groups_created_def after_option_groups_created_def return_def)

section \<open>Properties of after\_options\_defined\<close>

lemma after_options_defined_block:
  "after_options_defined options = hide_keys options Visibility_none target_keys"
  by (simp add: after_options_defined_def hide_keys_def target_keys_def)

lemma hide_Nil: "hide_keys options v [] s = (Inr (), s)"
  by (simp add: hide_keys_def)

lemma hide_Cons:
  "hide_keys options v (x # xs) s =
     (case type_hints options x of
        None \<Rightarrow> (Inl (KeyError x), s)
      | Some c \<Rightarrow>
          hide_keys options v xs
            (s(c := (s c)\<lparr>obj_dict := (obj_dict (s c))(''visibility'' \<mapsto> VisV v)\<rparr>)))"
proof -
  have "set_visibility options x v s =
      (case type_hints options x of
         None \<Rightarrow> (Inl (KeyError x), s)
       | Some c \<Rightarrow>
           (Inr (), s(c := (s c)\<lparr>obj_dict := (obj_dict (s c))(''visibility'' \<mapsto> VisV v)\<rparr>)))"
    by (simp add: set_visibility_def bind_def dict_getitem_def type_setattr_def
        split: option.splits)
  then show ?thesis by (simp add: hide_keys_def split: option.splits)
qed

lemma hide_returns:
  "set ks \<subseteq> dom (type_hints options) \<Longrightarrow>
   fst (hide_keys options v ks s) = Inr ()"
proof (induction ks arbitrary: s)
  case Nil
  show ?case by (simp add: hide_Nil)
next
  case (Cons x xs)
  from Cons.prems obtain c where c: "type_hints options x = Some c" by auto
  from Cons.prems have "set xs \<subseteq> dom (type_hints options)" by simp
  then show ?case unfolding hide_Cons by (simp add: c Cons.IH)
qed

lemma hide_raises:
  "set pre \<subseteq> dom (type_hints options) \<Longrightarrow> type_hints options k = None \<Longrightarrow>
   hide_keys options v (pre @ k # post) s =
     (Inl (KeyError k), snd (hide_keys options v pre s))"
proof (induction pre arbitrary: s)
  case Nil
  then show ?case unfolding append_Nil hide_Cons by (simp add: hide_Nil)
next
  case (Cons x xs)
  from Cons.prems obtain c where c: "type_hints options x = Some c" by auto
  from Cons.prems have "set xs \<subseteq> dom (type_hints options)" by simp
  then show ?case unfolding append_Cons hide_Cons using Cons.prems(2)
    by (simp add: c Cons.IH del: fun_upd_apply)
qed

lemma hide_mro_rest:
  "obj_mro_rest (snd (hide_keys options v ks s) c) = obj_mro_rest (s c)"
proof (induction ks arbitrary: s)
  case Nil
  show ?case by (simp add: hide_Nil)
next
  case (Cons x xs)
  show ?case unfolding hide_Cons by (simp add: Cons.IH split: option.splits)
qed

lemma hide_other_attr:
  "a \<noteq> ''visibility'' \<Longrightarrow>
   obj_dict (snd (hide_keys options v ks s) c) a = obj_dict (s c) a"
proof (induction ks arbitrary: s)
  case Nil
  show ?case by (simp add: hide_Nil)
next
  case (Cons x xs)
  then show ?case unfolding hide_Cons by (simp split: option.splits)
qed

lemma hide_stays:
  "obj_dict (s c) ''visibility'' = Some (VisV v) \<Longrightarrow>
   obj_dict (snd (hide_keys options v ks s) c) ''visibility''
     = Some (VisV v)"
proof (induction ks arbitrary: s)
  case Nil
  then show ?case by (simp add: hide_Nil)
next
  case (Cons x xs)
  then show ?case unfolding hide_Cons by (simp split: option.splits)
qed

lemma hide_sets:
  "k \<in> set ks \<Longrightarrow> set ks \<subseteq> dom (type_hints options) \<Longrightarrow> type_hints options k = Some c \<Longrightarrow>
   obj_dict (snd (hide_keys options v ks s) c) ''visibility''
     = Some (VisV v)"
proof (induction ks arbitrary: s)
  case Nil
  then show ?case by (simp add: hide_Nil)
next
  case (Cons x xs)
  from Cons.prems obtain cx where cx: "type_hints options x = Some cx" by auto
  let ?s1 = "s(cx := (s cx)\<lparr>obj_dict := (obj_dict (s cx))(''visibility'' \<mapsto> VisV v)\<rparr>)"
  show ?case
  proof (cases "k \<in> set xs")
    case True
    from Cons.prems have "set xs \<subseteq> dom (type_hints options)" by simp
    from Cons.IH [OF True this Cons.prems(3), of ?s1]
    show ?thesis unfolding hide_Cons by (simp add: cx del: fun_upd_apply)
  next
    case False
    with Cons.prems have "k = x" by simp
    with cx Cons.prems have "cx = c" by simp
    then have "obj_dict (?s1 c) ''visibility'' = Some (VisV v)" by simp
    then have "obj_dict (snd (hide_keys options v xs ?s1) c) ''visibility'' = Some (VisV v)"
      by (rule hide_stays)
    then show ?thesis unfolding hide_Cons by (simp add: cx del: fun_upd_apply)
  qed
qed

lemma hide_untouched:
  "c \<notin> set (List.map_filter (type_hints options) ks) \<Longrightarrow>
   snd (hide_keys options v ks s) c = s c"
proof (induction ks arbitrary: s)
  case Nil
  show ?case by (simp add: hide_Nil)
next
  case (Cons x xs)
  then show ?case unfolding hide_Cons
    by (auto split: option.splits)
qed

lemma mro_lookup_cong:
  "(\<And>c. c \<in> set cs \<Longrightarrow> obj_dict (s' c) a = obj_dict (s c) a) \<Longrightarrow>
   mro_lookup s' cs a = mro_lookup s cs a"
  by (induction cs) (simp_all split: option.splits)

lemma hidden_after:
  assumes "k \<in> set ks" "set ks \<subseteq> dom (type_hints options)"
  shows "option_attr options (snd (hide_keys options v ks s)) k ''visibility'' = Some (VisV v)"
proof -
  from assms obtain c where c: "type_hints options k = Some c" by auto
  from hide_sets [OF assms(1) assms(2) c]
  show ?thesis by (simp add: option_attr_def c type_getattr_def mro_def)
qed

lemma other_attr_after:
  assumes "a \<noteq> ''visibility''"
  shows "option_attr options (snd (hide_keys options v ks s)) k a = option_attr options s k a"
proof (cases "type_hints options k")
  case None
  then show ?thesis by (simp add: option_attr_def)
next
  case (Some c)
  have "mro_lookup (snd (hide_keys options v ks s)) (mro s c) a = mro_lookup s (mro s c) a"
    by (rule mro_lookup_cong) (simp add: hide_other_attr [OF assms])
  then show ?thesis by (simp add: option_attr_def Some type_getattr_def mro_def hide_mro_rest)
qed

lemma unrelated_after:
  assumes "type_hints options k = Some c"
    and "set (mro s c) \<inter> set (List.map_filter (type_hints options) ks) = {}"
  shows "option_attr options (snd (hide_keys options v ks s)) k a = option_attr options s k a"
proof -
  have "mro_lookup (snd (hide_keys options v ks s)) (mro s c) a = mro_lookup s (mro s c) a"
  proof (rule mro_lookup_cong)
    fix d assume "d \<in> set (mro s c)"
    with assms(2) have "d \<notin> set (List.map_filter (type_hints options) ks)" by auto
    then show "obj_dict (snd (hide_keys options v ks s) d) a = obj_dict (s d) a"
      by (simp add: hide_untouched)
  qed
  then show ?thesis
    by (simp add: option_attr_def assms(1) type_getattr_def mro_def hide_mro_rest)
qed

text \<open>
  C2. If the option set lacks one of the eleven target keys, \<open>after_options_defined\<close>
  raises \<open>KeyError\<close> naming the first target key, in source order, that is not bound.
  The store it leaves is the store after the assignments for the keys before that one:
  each of those keys shows the visibility \<open>none\<close>, and nothing is rolled back.
\<close>

theorem after_options_defined_missing_key:
  assumes "\<not> set target_keys \<subseteq> dom (type_hints options)"
  shows "\<exists>pre k post.
           target_keys = pre @ k # post \<and>
           set pre \<subseteq> dom (type_hints options) \<and>
           type_hints options k = None \<and>
           fst (after_options_defined options s) = Inl (KeyError k) \<and>
           snd (after_options_defined options s) = snd (hide_keys options Visibility_none pre s) \<and>
           (\<forall>p \<in> set pre.
              option_attr options (snd (after_options_defined options s)) p ''visibility''
                = Some (VisV Visibility_none))"
proof -
  from assms have "\<exists>k \<in> set target_keys. type_hints options k = None" by auto
  from split_list_first_prop [OF this]
  obtain pre k post where split: "target_keys = pre @ k # post"
    and missing: "type_hints options k = None"
    and before: "\<forall>p \<in> set pre. type_hints options p \<noteq> None"
    by blast
  from before have bound: "set pre \<subseteq> dom (type_hints options)" by auto
  have run: "after_options_defined options s =
      (Inl (KeyError k), snd (hide_keys options Visibility_none pre s))"
    unfolding after_options_defined_block split by (rule hide_raises [OF bound missing])
  have "option_attr options (snd (after_options_defined options s)) p ''visibility''
      = Some (VisV Visibility_none)" if "p \<in> set pre" for p
    unfolding run snd_conv by (rule hidden_after [OF that bound])
  with split bound missing run show ?thesis by auto
qed

theorem after_options_defined_missing_key_witness:
  "\<not> set target_keys \<subseteq> dom (type_hints partial_options) \<and>
   fst (after_options_defined partial_options visible_store) = Inl (KeyError ''pure_soul'') \<and>
   option_attr partial_options visible_store ''co_op'' ''visibility''
     = Some (VisV Visibility_all) \<and>
   option_attr partial_options (snd (after_options_defined partial_options visible_store))
     ''co_op'' ''visibility'' = Some (VisV Visibility_none) \<and>
   option_attr partial_options (snd (after_options_defined partial_options visible_store))
     ''bux_shop'' ''visibility'' = Some (VisV Visibility_none) \<and>
   option_attr partial_options (snd (after_options_defined partial_options visible_store))
     ''shopsanity_currency'' ''visibility'' = Some (VisV Visibility_none) \<and>
   option_attr partial_options (snd (after_options_defined partial_options visible_store))
     ''dark_soul'' ''visibility'' = Some (VisV Visibility_all)"
  using after_options_defined_missing_key [of partial_options visible_store]
  by (simp add: after_options_defined_block hide_Cons hide_Nil target_keys_def
      partial_options_def visible_store_def option_attr_def type_getattr_def mro_def)

text \<open>
  C3, amended. On an option set that binds all eleven target keys,
  \<open>after_options_defined\<close> returns normally and each target key shows the visibility
  \<open>none\<close>. A key keeps the visibility it had when its class object is not the class
  object of a target key and does not inherit from one. Every attribute other than
  \<open>visibility\<close> reads as before, for every key.
\<close>

theorem after_options_defined_hides_targets:
  assumes "set target_keys \<subseteq> dom (type_hints options)"
  shows "fst (after_options_defined options s) = Inr () \<and>
         (\<forall>k \<in> set target_keys.
            option_attr options (snd (after_options_defined options s)) k ''visibility''
              = Some (VisV Visibility_none)) \<and>
         (\<forall>k c. type_hints options k = Some c \<and>
                 set (mro s c) \<inter> set (target_classes options) = {} \<longrightarrow>
            option_attr options (snd (after_options_defined options s)) k ''visibility''
              = option_attr options s k ''visibility'') \<and>
         (\<forall>k a. a \<noteq> ''visibility'' \<longrightarrow>
            option_attr options (snd (after_options_defined options s)) k a
              = option_attr options s k a)"
proof -
  have ret: "fst (after_options_defined options s) = Inr ()"
    unfolding after_options_defined_block by (rule hide_returns [OF assms])
  have hid: "option_attr options (snd (after_options_defined options s)) k ''visibility''
      = Some (VisV Visibility_none)" if "k \<in> set target_keys" for k
    unfolding after_options_defined_block by (rule hidden_after [OF that assms])
  have keep: "option_attr options (snd (after_options_defined options s)) k ''visibility''
      = option_attr options s k ''visibility''"
    if "type_hints options k = Some c" "set (mro s c) \<inter> set (target_classes options) = {}"
    for k c
    unfolding after_options_defined_block
    by (rule unrelated_after [OF that(1)]) (use that(2) in \<open>simp add: target_classes_def\<close>)
  have rest: "option_attr options (snd (after_options_defined options s)) k a
      = option_attr options s k a" if "a \<noteq> ''visibility''" for k a
    unfolding after_options_defined_block by (rule other_attr_after [OF that])
  from ret hid keep rest show ?thesis by blast
qed

theorem after_options_defined_hides_targets_witness:
  "set target_keys \<subseteq> dom (type_hints full_options) \<and>
   fst (after_options_defined full_options visible_store) = Inr () \<and>
   map (\<lambda>k. option_attr full_options (snd (after_options_defined full_options visible_store))
              k ''visibility'') target_keys
     = replicate 11 (Some (VisV Visibility_none)) \<and>
   option_attr full_options visible_store ''unrelated_key'' ''visibility''
     = Some (VisV Visibility_all) \<and>
   option_attr full_options (snd (after_options_defined full_options visible_store))
     ''unrelated_key'' ''visibility'' = Some (VisV Visibility_all)"
proof -
  have bound: "set target_keys \<subseteq> dom (type_hints full_options)"
    by (simp add: target_keys_def full_options_def)
  note hides = after_options_defined_hides_targets [OF bound, of visible_store]
  have own: "type_hints full_options ''unrelated_key'' = Some 11 \<and>
      set (mro visible_store 11) \<inter> set (target_classes full_options) = {}"
    by (simp add: full_options_def mro_def visible_store_def target_classes_def
        target_keys_def)
  from hides own have kept:
    "option_attr full_options (snd (after_options_defined full_options visible_store))
       ''unrelated_key'' ''visibility''
     = option_attr full_options visible_store ''unrelated_key'' ''visibility''"
    by blast
  have was: "option_attr full_options visible_store ''unrelated_key'' ''visibility''
      = Some (VisV Visibility_all)"
    by (simp add: option_attr_def full_options_def type_getattr_def mro_def visible_store_def)
  from hides have "\<forall>k \<in> set target_keys.
      option_attr full_options (snd (after_options_defined full_options visible_store))
        k ''visibility'' = Some (VisV Visibility_none)"
    by blast
  then have all: "map (\<lambda>k. option_attr full_options
        (snd (after_options_defined full_options visible_store)) k ''visibility'') target_keys
      = replicate 11 (Some (VisV Visibility_none))"
    by (simp add: target_keys_def numeral_eq_Suc)
  from hides have "fst (after_options_defined full_options visible_store) = Inr ()"
    by blast
  with bound all was kept show ?thesis by simp
qed

theorem shared_class_counterexample:
  "set target_keys \<subseteq> dom (type_hints shared_options) \<and>
   ''unrelated_key'' \<notin> set target_keys \<and>
   fst (after_options_defined shared_options visible_store) = Inr () \<and>
   option_attr shared_options visible_store ''unrelated_key'' ''visibility''
     = Some (VisV Visibility_all) \<and>
   option_attr shared_options (snd (after_options_defined shared_options visible_store))
     ''unrelated_key'' ''visibility'' = Some (VisV Visibility_none)"
  by (simp add: after_options_defined_block hide_Cons hide_Nil target_keys_def
      shared_options_def visible_store_def option_attr_def type_getattr_def mro_def)

end
